theory Spec2Isabelle
  imports Main
begin

section \<open>JavaScript values, users and configuration\<close>

text \<open>
  The values that reach the role pipeline. A value that is not an array is one of:
  \<^verbatim>\<open>undefined\<close>, \<^verbatim>\<open>null\<close>, a string, a member of \<^verbatim>\<open>Object.prototype\<close> (which every
  plain object inherits, named by its property name), or any other value (a number, a
  boolean, an object; also an array that is itself an element of an array), given by the
  two things the code observes of it: the string JavaScript converts it to when it is used
  as a property key, and its truthiness. Values whose conversion to a property key throws
  are outside this model.
\<close>

datatype js_atom = Undefined | Null | Str string | Builtin string | Other string bool

datatype js_value = Atom js_atom | Arr "js_atom list"

text \<open>JavaScript truthiness, as \<^verbatim>\<open>||\<close> and \<^verbatim>\<open>if\<close> test it.\<close>

fun truthy :: "js_atom \<Rightarrow> bool" where
  "truthy Undefined = False"
| "truthy Null = False"
| "truthy (Str s) = (s \<noteq> [])"
| "truthy (Builtin n) = True"
| "truthy (Other k t) = t"

text \<open>The property names of \<^verbatim>\<open>Object.prototype\<close>.\<close>

definition objectPrototypeKeys :: "string list" where
  "objectPrototypeKeys =
     [''constructor'', ''__defineGetter__'', ''__defineSetter__'', ''hasOwnProperty'',
      ''__lookupGetter__'', ''__lookupSetter__'', ''isPrototypeOf'', ''propertyIsEnumerable'',
      ''toString'', ''valueOf'', ''__proto__'', ''toLocaleString'']"

text \<open>What a property read finds on the prototype when the object has no own property.\<close>

definition inherited :: "string \<Rightarrow> js_atom" where
  "inherited k = (if k \<in> set objectPrototypeKeys then Builtin k else Undefined)"

text \<open>
  The string a value becomes when it is used as a property key. A member of
  \<^verbatim>\<open>Object.prototype\<close> is a native function (\<^verbatim>\<open>constructor\<close> is \<^verbatim>\<open>Object\<close>), printed
  as V8 prints it, or the prototype object itself (\<^verbatim>\<open>__proto__\<close>).
\<close>

definition nativeText :: "string \<Rightarrow> string" where
  "nativeText n =
     (if n = ''__proto__'' then ''[object Object]''
      else ''function '' @ (if n = ''constructor'' then ''Object'' else n)
             @ ''() { [native code] }'')"

fun toKey :: "js_atom \<Rightarrow> string" where
  "toKey Undefined = ''undefined''"
| "toKey Null = ''null''"
| "toKey (Str s) = s"
| "toKey (Builtin n) = nativeText n"
| "toKey (Other k t) = k"

text \<open>
  \<^verbatim>\<open>DirectusUser\<close>: an object with arbitrary named fields, given by its own properties.
  \<^verbatim>\<open>user[roleField]\<close> reads an own property, or else what the prototype has.
\<close>

type_synonym DirectusUser = "string \<rightharpoonup> js_value"

definition getField :: "DirectusUser \<Rightarrow> string \<Rightarrow> js_value" where
  "getField u k = (case u k of None \<Rightarrow> Atom (inherited k) | Some v \<Rightarrow> v)"

text \<open>A thrown JavaScript error, with its message.\<close>

datatype exn = Error string

text \<open>
  \<^verbatim>\<open>transform?: (fieldValue: any, user: any) => string | string[]\<close>; the function may throw,
  and at run time it may return any value.
\<close>

type_synonym transform_fn = "js_value \<Rightarrow> DirectusUser \<Rightarrow> exn + js_value"

text \<open>\<^verbatim>\<open>module.ts\<close>: \<^verbatim>\<open>DirectusPermissionsConfig\<close>, \<^verbatim>\<open>DirectusAuthConfig\<close>, \<^verbatim>\<open>ModuleOptions\<close>
  (the part published as \<^verbatim>\<open>config.public.directus\<close>). The mapping is a plain object,
  given by its own entries (\<^verbatim>\<open>Record<string, string>\<close>).\<close>

record DirectusPermissionsConfig =
  enabled :: bool
  field :: string
  mapping :: "(string \<rightharpoonup> string) option"
  transform :: "transform_fn option"

record DirectusAuthConfig =
  loginPath :: string
  registerPath :: string
  afterLoginPath :: string
  afterLogoutPath :: string
  permissions :: "DirectusPermissionsConfig option"

record ModuleOptions =
  enableGlobalMiddleware :: "bool option"
  auth :: "DirectusAuthConfig option"

text \<open>\<^verbatim>\<open>PageMetaAuth\<close> of \<^verbatim>\<open>directus-auth.ts\<close>: the object form of \<^verbatim>\<open>meta.auth\<close>.\<close>

record AuthMeta =
  unauthenticatedOnly :: "bool option"
  navigateAuthenticatedTo :: "string option"
  navigateUnauthenticatedTo :: "string option"
  roles :: "string list option"
  excludeRoles :: "string list option"
  unauthorizedRedirect :: "string option"

text \<open>\<^verbatim>\<open>meta.auth\<close> is \<^verbatim>\<open>undefined\<close> (or \<^verbatim>\<open>null\<close>), a boolean, or an object.\<close>

datatype auth_meta_raw = AuthUndefined | AuthBool bool | AuthObject AuthMeta

record RouteLocation =
  path :: string
  fullPath :: string
  meta_auth :: auth_meta_raw

section \<open>Session state and the redirect cookie\<close>

text \<open>
  The plugin's \<^verbatim>\<open>useState\<close> cells (\<^verbatim>\<open>directus-authenticated\<close>, \<^verbatim>\<open>directus-user\<close>,
  \<^verbatim>\<open>directus-ws-connected\<close>) and the cookie \<^verbatim>\<open>directus-auth-redirect\<close>, whose default
  value is the empty string. The cookie's expiry belongs to the browser and is not modelled.
\<close>

record NuxtState =
  isAuthenticatedState :: bool
  currentUser :: "DirectusUser option"
  isWebSocketConnected :: bool
  redirectCookie :: string

text \<open>What \<^verbatim>\<open>checkAuthStatus\<close> returns: \<^verbatim>\<open>me\<close> (a record, or \<^verbatim>\<open>null\<close>) or \<^verbatim>\<open>false\<close>.\<close>

datatype checkAuthResult = ReturnedMe "DirectusUser option" | ReturnedFalse

text \<open>
  \<^verbatim>\<open>checkAuthStatus\<close> of \<^verbatim>\<open>directus.ts\<close>. The first argument is what
  \<^verbatim>\<open>directusClient.request(readMe())\<close> does: it rejects, or it resolves with a user
  record or with nothing (\<^verbatim>\<open>null\<close> or \<^verbatim>\<open>undefined\<close>, \<open>None\<close> here). Lines 107 and 108
  store what the request resolved with, whatever it is. \<^verbatim>\<open>initializeWebSocket\<close> catches
  its own errors and changes the connection flag only from later socket events, so the
  flag is unchanged here.
\<close>

definition checkAuthStatus ::
    "exn + DirectusUser option \<Rightarrow> NuxtState \<Rightarrow> checkAuthResult \<times> NuxtState" where
  "checkAuthStatus response st =
     (case response of
        Inr me \<Rightarrow> (ReturnedMe me, st\<lparr>isAuthenticatedState := True, currentUser := me\<rparr>)
      | Inl error \<Rightarrow> (ReturnedFalse, st\<lparr>isAuthenticatedState := False, currentUser := None\<rparr>))"

section \<open>JavaScript idioms\<close>

text \<open>\<^verbatim>\<open>s.startsWith(p)\<close>.\<close>

fun startsWith :: "string \<Rightarrow> string \<Rightarrow> bool" where
  "startsWith s [] = True"
| "startsWith [] (c # p) = False"
| "startsWith (a # s) (c # p) = (a = c \<and> startsWith s p)"

text \<open>\<^verbatim>\<open>a || b\<close> on an optional string: \<^verbatim>\<open>undefined\<close> and the empty string are falsy.\<close>

definition orElse :: "string option \<Rightarrow> string \<Rightarrow> string" where
  "orElse a b = (case a of None \<Rightarrow> b | Some s \<Rightarrow> if s = [] then b else s)"

text \<open>\<^verbatim>\<open>authMeta?.f\<close>: optional chaining on the route's auth object.\<close>

definition optChain :: "AuthMeta option \<Rightarrow> (AuthMeta \<Rightarrow> 'a option) \<Rightarrow> 'a option" where
  "optChain authMeta f = (case authMeta of None \<Rightarrow> None | Some m \<Rightarrow> f m)"

section \<open>The role pipeline\<close>

text \<open>\<^verbatim>\<open>config.public.directus?.auth?.permissions\<close>.\<close>

definition permissionsOf :: "ModuleOptions option \<Rightarrow> DirectusPermissionsConfig option" where
  "permissionsOf config =
     (case config of None \<Rightarrow> None
      | Some d \<Rightarrow> (case auth d of None \<Rightarrow> None | Some a \<Rightarrow> permissions a))"

text \<open>\<^verbatim>\<open>permissionsConfig.field || "role"\<close>.\<close>

definition roleField :: "DirectusPermissionsConfig \<Rightarrow> string" where
  "roleField pc = (if field pc = [] then ''role'' else field pc)"

text \<open>
  The guarded call of the transform: the assignment happens only when the call returns;
  when it throws, the error is logged and the value stays what it was.
\<close>

definition applyTransform :: "transform_fn option \<Rightarrow> js_value \<Rightarrow> DirectusUser \<Rightarrow> js_value" where
  "applyTransform t roleValue u =
     (case t of
        None \<Rightarrow> roleValue
      | Some f \<Rightarrow> (case f roleValue u of Inr v \<Rightarrow> v | Inl e \<Rightarrow> roleValue))"

text \<open>\<^verbatim>\<open>Array.isArray(v) ? v : v != null ? [v] : []\<close>.\<close>

fun normalizeRoles :: "js_value \<Rightarrow> js_atom list" where
  "normalizeRoles (Arr xs) = xs"
| "normalizeRoles (Atom Null) = []"
| "normalizeRoles (Atom Undefined) = []"
| "normalizeRoles (Atom a) = [a]"

text \<open>
  \<^verbatim>\<open>mapping[role]\<close>: the role is converted to a property key; an own entry gives its
  string, and without one the read goes on to the prototype.
\<close>

definition mappingLookup :: "(string \<rightharpoonup> string) \<Rightarrow> js_atom \<Rightarrow> js_atom" where
  "mappingLookup m role =
     (case m (toKey role) of None \<Rightarrow> inherited (toKey role) | Some v \<Rightarrow> Str v)"

text \<open>\<^verbatim>\<open>roles.map((role) => mapping[role] || role)\<close>, when a mapping is configured.\<close>

definition applyMapping :: "(string \<rightharpoonup> string) option \<Rightarrow> js_atom list \<Rightarrow> js_atom list" where
  "applyMapping mo rs =
     (case mo of
        None \<Rightarrow> rs
      | Some m \<Rightarrow>
          map (\<lambda>role. if truthy (mappingLookup m role) then mappingLookup m role else role) rs)"

text \<open>
  The pipeline from the configured field to the role list: lines 301 to 328 of
  \<^verbatim>\<open>useDirectusAuth.ts\<close> (\<^verbatim>\<open>userRoles\<close>) and, with other variable names only, lines 155
  to 181 of \<^verbatim>\<open>directus-auth.ts\<close>.
\<close>

definition resolveRoles :: "DirectusPermissionsConfig \<Rightarrow> DirectusUser \<Rightarrow> js_atom list" where
  "resolveRoles pc u =
     applyMapping (mapping pc)
       (normalizeRoles (applyTransform (transform pc) (getField u (roleField pc)) u))"

text \<open>The computed \<^verbatim>\<open>userRoles\<close> of the composable.\<close>

definition userRoles :: "ModuleOptions option \<Rightarrow> DirectusUser option \<Rightarrow> js_atom list" where
  "userRoles config user =
     (case user of
        None \<Rightarrow> []
      | Some u \<Rightarrow>
          (case permissionsOf config of
             None \<Rightarrow> []
           | Some pc \<Rightarrow> if \<not> enabled pc then [] else resolveRoles pc u))"

text \<open>
  The computed \<^verbatim>\<open>userRole\<close>: \<^verbatim>\<open>userRoles.value[0] || null\<close>. Reading index 0 of an
  empty array gives \<^verbatim>\<open>undefined\<close>.
\<close>

definition userRole :: "ModuleOptions option \<Rightarrow> DirectusUser option \<Rightarrow> js_atom" where
  "userRole config user =
     (case userRoles config user of
        [] \<Rightarrow> Null
      | r # _ \<Rightarrow> if truthy r then r else Null)"

section \<open>The route middleware\<close>

datatype outcome = Allow | Redirect string

text \<open>Lines 50 to 56: the three paths, with the fallback object, and the global switch.\<close>

definition authPaths :: "ModuleOptions option \<Rightarrow> string \<times> string \<times> string" where
  "authPaths config =
     (case (case config of None \<Rightarrow> None | Some d \<Rightarrow> auth d) of
        None \<Rightarrow> (''/login'', ''/register'', ''/'')
      | Some a \<Rightarrow> (loginPath a, registerPath a, afterLoginPath a))"

definition enableGlobal :: "ModuleOptions option \<Rightarrow> bool" where
  "enableGlobal config =
     (case config of None \<Rightarrow> True
      | Some d \<Rightarrow> (case enableGlobalMiddleware d of None \<Rightarrow> True | Some b \<Rightarrow> b))"

definition emptyAuthMeta :: AuthMeta where
  "emptyAuthMeta = \<lparr>unauthenticatedOnly = None, navigateAuthenticatedTo = None,
     navigateUnauthenticatedTo = None, roles = None, excludeRoles = None,
     unauthorizedRedirect = None\<rparr>"

text \<open>Lines 63 to 83: \<^verbatim>\<open>requiresAuth\<close> and \<^verbatim>\<open>authMeta\<close> from \<^verbatim>\<open>to.meta.auth\<close>.\<close>

fun resolveAuthMeta :: "auth_meta_raw \<Rightarrow> bool \<Rightarrow> bool \<times> AuthMeta option" where
  "resolveAuthMeta (AuthBool False) g = (False, None)"
| "resolveAuthMeta (AuthBool True) g = (True, Some emptyAuthMeta)"
| "resolveAuthMeta (AuthObject m) g = (True, Some m)"
| "resolveAuthMeta AuthUndefined g = (g, None)"

text \<open>Lines 109 to 117 and 215 to 222: the cookie is written unless the target is an auth page.\<close>

definition rememberTarget :: "string \<Rightarrow> string \<Rightarrow> RouteLocation \<Rightarrow> NuxtState \<Rightarrow> NuxtState" where
  "rememberTarget lp rp to st =
     (if \<not> startsWith (path to) lp \<and> \<not> startsWith (path to) rp
      then st\<lparr>redirectCookie := fullPath to\<rparr> else st)"

text \<open>Lines 102 to 122: the session is not authenticated.\<close>

definition handleUnauthenticated ::
    "string \<Rightarrow> string \<Rightarrow> AuthMeta option \<Rightarrow> RouteLocation \<Rightarrow> NuxtState \<Rightarrow> outcome \<times> NuxtState" where
  "handleUnauthenticated lp rp authMeta to st =
     (if optChain authMeta unauthenticatedOnly = Some True then (Allow, st)
      else (Redirect (orElse (optChain authMeta navigateUnauthenticatedTo) lp),
            rememberTarget lp rp to st))"

text \<open>
  Lines 183 to 207: the two role checks, one after the other. \<^verbatim>\<open>includes\<close> compares a
  role with the strings of the page meta: only a string can be equal to one of them.
\<close>

definition roleChecks :: "AuthMeta \<Rightarrow> js_atom list \<Rightarrow> outcome" where
  "roleChecks m rs =
     (if (case roles m of
            None \<Rightarrow> False
          | Some required \<Rightarrow>
              required \<noteq> []
              \<and> \<not> list_ex (\<lambda>requiredRole. Str requiredRole \<in> set rs) required)
      then Redirect (orElse (unauthorizedRedirect m) ''/'')
      else if (case excludeRoles m of
                 None \<Rightarrow> False
               | Some excluded \<Rightarrow>
                   excluded \<noteq> [] \<and> list_ex (\<lambda>role. role \<in> set (map Str excluded)) rs)
      then Redirect (orElse (unauthorizedRedirect m) ''/'')
      else Allow)"

text \<open>Lines 148 to 209: role-based access control for an authenticated session.\<close>

definition roleBasedAccess :: "ModuleOptions option \<Rightarrow> AuthMeta option \<Rightarrow> NuxtState \<Rightarrow> outcome" where
  "roleBasedAccess config authMeta st =
     (case permissionsOf config of
        None \<Rightarrow> Allow
      | Some pc \<Rightarrow>
          if enabled pc \<and> (optChain authMeta roles \<noteq> None \<or> optChain authMeta excludeRoles \<noteq> None)
          then (case currentUser st of
                  None \<Rightarrow> Allow
                | Some u \<Rightarrow>
                    (case authMeta of
                       None \<Rightarrow> Allow
                     | Some m \<Rightarrow> roleChecks m (resolveRoles pc u)))
          else Allow)"

text \<open>Lines 125 to 210: the session is authenticated.\<close>

definition handleAuthenticated ::
    "ModuleOptions option \<Rightarrow> AuthMeta option \<Rightarrow> RouteLocation \<Rightarrow> NuxtState \<Rightarrow> outcome \<times> NuxtState" where
  "handleAuthenticated config authMeta from st =
     (case authPaths config of
        (lp, rp, alp) \<Rightarrow>
          if optChain authMeta unauthenticatedOnly = Some True
          then (if redirectCookie st \<noteq> [] \<and> (startsWith (path from) lp \<or> startsWith (path from) rp)
                then (Redirect (redirectCookie st), st\<lparr>redirectCookie := []\<rparr>)
                else (Redirect (orElse (optChain authMeta navigateAuthenticatedTo) alp), st))
          else (roleBasedAccess config authMeta st, st))"

text \<open>
  The middleware, over the injected \<^verbatim>\<open>$directusAuth.checkAuthStatus\<close>: a call either
  returns or throws, and leaves a state behind in both cases. A throw inside the
  \<^verbatim>\<open>try\<close> block reaches the \<^verbatim>\<open>catch\<close> block of lines 211 to 225.
\<close>

type_synonym auth_check = "NuxtState \<Rightarrow> (exn + checkAuthResult) \<times> NuxtState"

definition middleware_with ::
    "auth_check \<Rightarrow> ModuleOptions option \<Rightarrow> RouteLocation \<Rightarrow> RouteLocation \<Rightarrow> NuxtState
       \<Rightarrow> outcome \<times> NuxtState" where
  "middleware_with check config to from st =
     (case authPaths config of
        (lp, rp, alp) \<Rightarrow>
          (case resolveAuthMeta (meta_auth to) (enableGlobal config) of
             (requiresAuth, authMeta) \<Rightarrow>
               if startsWith (path to) lp \<or> startsWith (path to) rp then (Allow, st)
               else if \<not> requiresAuth then (Allow, st)
               else (case check st of
                       (Inl error, st1) \<Rightarrow> (Redirect lp, rememberTarget lp rp to st1)
                     | (Inr _, st1) \<Rightarrow>
                         if \<not> isAuthenticatedState st1
                         then handleUnauthenticated lp rp authMeta to st1
                         else handleAuthenticated config authMeta from st1)))"

text \<open>The check that the plugin provides: \<^verbatim>\<open>checkAuthStatus\<close>, which never throws.\<close>

definition directusAuth_check :: "exn + DirectusUser option \<Rightarrow> auth_check" where
  "directusAuth_check response st =
     (case checkAuthStatus response st of (r, st1) \<Rightarrow> (Inr r, st1))"

definition middleware ::
    "exn + DirectusUser option \<Rightarrow> ModuleOptions option \<Rightarrow> RouteLocation \<Rightarrow> RouteLocation
       \<Rightarrow> NuxtState \<Rightarrow> outcome \<times> NuxtState" where
  "middleware response = middleware_with (directusAuth_check response)"

section \<open>Login\<close>

text \<open>
  \<^verbatim>\<open>login\<close> of the composable. The arguments are what \<^verbatim>\<open>client.login\<close> and the
  following \<^verbatim>\<open>readMe\<close> request do. The result holds the returned user or the rethrown
  error, the path given to \<^verbatim>\<open>navigateTo\<close> (if it was called), and the state left behind,
  with the composable's \<^verbatim>\<open>isLoading\<close> and \<^verbatim>\<open>error\<close> cells. \<^verbatim>\<open>navigateTo\<close> and
  \<^verbatim>\<open>$directusWs.initialize\<close> are taken to return.
\<close>

record LoginResult =
  returned :: "exn + DirectusUser option"
  navigatedTo :: "string option"
  nuxt :: NuxtState
  isLoading :: bool
  error :: "string option"

fun message :: "exn \<Rightarrow> string" where
  "message (Error m) = m"

text \<open>\<^verbatim>\<open>config.public.directus?.auth?.afterLoginPath || "/"\<close>.\<close>

definition loginAfterLoginPath :: "ModuleOptions option \<Rightarrow> string" where
  "loginAfterLoginPath config =
     orElse (case config of None \<Rightarrow> None
             | Some d \<Rightarrow> (case auth d of None \<Rightarrow> None | Some a \<Rightarrow> Some (afterLoginPath a))) ''/''"

definition login ::
    "ModuleOptions option \<Rightarrow> exn + unit \<Rightarrow> exn + DirectusUser option \<Rightarrow> NuxtState \<Rightarrow> LoginResult" where
  "login config loginResponse meResponse st =
     (case loginResponse of
        Inl e \<Rightarrow>
          \<lparr>returned = Inl e, navigatedTo = None, nuxt = st, isLoading = False,
           error = Some (if message e = [] then ''Login failed'' else message e)\<rparr>
      | Inr _ \<Rightarrow>
          (let st1 = snd (checkAuthStatus meResponse st);
               redirectTo = (if redirectCookie st1 \<noteq> [] then redirectCookie st1
                             else loginAfterLoginPath config);
               st2 = st1\<lparr>redirectCookie := []\<rparr>
           in \<lparr>returned = Inr (currentUser st2), navigatedTo = Some redirectTo, nuxt = st2,
               isLoading = False, error = None\<rparr>))"

section \<open>Concrete configurations, users and routes\<close>

text \<open>
  The module's configuration with a given permissions object; the other values are the
  \<^verbatim>\<open>defaults\<close> of \<^verbatim>\<open>module.ts\<close>.
\<close>

definition withPermissions :: "DirectusPermissionsConfig \<Rightarrow> ModuleOptions option" where
  "withPermissions pc =
     Some \<lparr>enableGlobalMiddleware = Some True,
           auth = Some \<lparr>loginPath = ''/auth/login'', registerPath = ''/auth/register'',
                         afterLoginPath = ''/'', afterLogoutPath = ''/auth/login'',
                         permissions = Some pc\<rparr>\<rparr>"

definition permissionsOff :: DirectusPermissionsConfig where
  "permissionsOff = \<lparr>enabled = False, field = ''role'', mapping = None, transform = None\<rparr>"

definition permissionsOn :: DirectusPermissionsConfig where
  "permissionsOn = \<lparr>enabled = True, field = ''role'', mapping = None, transform = None\<rparr>"

definition throwingTransform :: transform_fn where
  "throwingTransform v u = Inl (Error ''transform failed'')"

text \<open>The mapping of the documentation: role identifiers to readable names.\<close>

definition uuidMapping :: "string \<rightharpoonup> string" where
  "uuidMapping = [''a1b2c3d4'' \<mapsto> ''admin'', ''e5f6g7h8'' \<mapsto> ''editor'']"

definition userWithRole :: "js_value \<Rightarrow> DirectusUser" where
  "userWithRole v =
     [''id'' \<mapsto> Atom (Str ''7''), ''email'' \<mapsto> Atom (Str ''a@example.org''), ''role'' \<mapsto> v]"

definition freshState :: NuxtState where
  "freshState = \<lparr>isAuthenticatedState = False, currentUser = None,
     isWebSocketConnected = False, redirectCookie = []\<rparr>"

definition page :: "string \<Rightarrow> auth_meta_raw \<Rightarrow> RouteLocation" where
  "page p a = \<lparr>path = p, fullPath = p, meta_auth = a\<rparr>"

section \<open>Unfolding rules for closed examples\<close>

lemmas example_defs = withPermissions_def permissionsOff_def permissionsOn_def
  userWithRole_def freshState_def page_def emptyAuthMeta_def

lemmas guard_defs = middleware_def middleware_with_def directusAuth_check_def
  checkAuthStatus_def authPaths_def enableGlobal_def handleUnauthenticated_def
  handleAuthenticated_def roleBasedAccess_def roleChecks_def permissionsOf_def optChain_def
  orElse_def rememberTarget_def

lemmas role_defs = userRoles_def resolveRoles_def applyMapping_def mappingLookup_def
  inherited_def objectPrototypeKeys_def applyTransform_def roleField_def getField_def
  permissionsOf_def

section \<open>Session re-validation\<close>

text \<open>
  When the request rejects, or resolves with a user record, the flag is true exactly when
  a user is stored, and a rejection is returned as the value \<^verbatim>\<open>false\<close>, not thrown.
\<close>

lemma checkAuthStatus_record_or_rejected:
  "checkAuthStatus (Inr (Some me)) st
     = (ReturnedMe (Some me), st\<lparr>isAuthenticatedState := True, currentUser := Some me\<rparr>)
   \<and> checkAuthStatus (Inl e) st
     = (ReturnedFalse, st\<lparr>isAuthenticatedState := False, currentUser := None\<rparr>)"
  by (simp add: checkAuthStatus_def)

text \<open>
  C9. The specification says that after every completed call of \<^verbatim>\<open>checkAuthStatus\<close> the
  flag is true exactly when a user record is present. The code sets the flag whenever the
  request resolves and stores what it resolved with: for a request that resolves with
  \<^verbatim>\<open>null\<close> the call returns \<^verbatim>\<open>null\<close> and leaves the flag true with no user stored.
\<close>

theorem checkAuthStatus_resolved_with_null:
  "checkAuthStatus (Inr None) freshState
     = (ReturnedMe None, freshState\<lparr>isAuthenticatedState := True\<rparr>)
   \<and> isAuthenticatedState (snd (checkAuthStatus (Inr None) freshState))
   \<and> currentUser (snd (checkAuthStatus (Inr None) freshState)) = None"
  by (simp add: checkAuthStatus_def freshState_def)

section \<open>The role pipeline: transform, normalisation, mapping\<close>

lemma roleField_transform_update: "roleField (pc\<lparr>transform := t\<rparr>) = roleField pc"
  by (simp add: roleField_def)

lemma applyTransform_throws:
  "t = Some f \<Longrightarrow> f v u = Inl e \<Longrightarrow> applyTransform t v u = v"
  by (simp add: applyTransform_def)

text \<open>
  C5. When the configured transform throws on the raw field value, the pipeline goes on with
  the raw value: the role list is the one the same configuration without a transform gives.
  With no mapping and the raw scalar \<open>x\<close> the list is \<open>[x]\<close>, in the pipeline and in the
  composable's \<^verbatim>\<open>userRoles\<close>. The pipeline's result is a plain list: no error leaves it.
\<close>

theorem transform_fault_falls_back:
  assumes "transform pc = Some f" and "f (getField u (roleField pc)) u = Inl e"
  shows "resolveRoles pc u = resolveRoles (pc\<lparr>transform := None\<rparr>) u
     \<and> (mapping pc = None \<and> getField u (roleField pc) = Atom (Str x)
          \<longrightarrow> resolveRoles pc u = [Str x])
     \<and> (mapping pc = None \<and> getField u (roleField pc) = Atom (Str x) \<and> enabled pc
          \<and> permissionsOf config = Some pc \<longrightarrow> userRoles config (Some u) = [Str x])"
proof -
  have raw: "applyTransform (transform pc) (getField u (roleField pc)) u = getField u (roleField pc)"
    using assms by (rule applyTransform_throws)
  have with_t: "resolveRoles pc u
      = applyMapping (mapping pc) (normalizeRoles (getField u (roleField pc)))"
    by (simp add: resolveRoles_def raw)
  have without_t: "resolveRoles (pc\<lparr>transform := None\<rparr>) u
      = applyMapping (mapping pc) (normalizeRoles (getField u (roleField pc)))"
    by (simp add: resolveRoles_def roleField_transform_update applyTransform_def)
  have same: "resolveRoles pc u = resolveRoles (pc\<lparr>transform := None\<rparr>) u"
    by (simp only: with_t without_t)
  have scalar: "resolveRoles pc u = [Str x]"
    if "mapping pc = None" and "getField u (roleField pc) = Atom (Str x)"
    using that by (simp add: with_t applyMapping_def)
  have composable: "userRoles config (Some u) = [Str x]"
    if "mapping pc = None" and "getField u (roleField pc) = Atom (Str x)"
      and "enabled pc" and "permissionsOf config = Some pc"
    using that scalar by (simp add: userRoles_def)
  from same scalar composable show ?thesis by blast
qed

theorem transform_fault_falls_back_witness:
  "transform (permissionsOn\<lparr>transform := Some throwingTransform\<rparr>) = Some throwingTransform
   \<and> throwingTransform (Atom (Str ''x'')) (userWithRole (Atom (Str ''x'')))
       = Inl (Error ''transform failed'')
   \<and> resolveRoles (permissionsOn\<lparr>transform := Some throwingTransform\<rparr>)
        (userWithRole (Atom (Str ''x''))) = [Str ''x'']
   \<and> userRoles (withPermissions (permissionsOn\<lparr>transform := Some throwingTransform\<rparr>))
        (Some (userWithRole (Atom (Str ''x'')))) = [Str ''x'']"
proof -
  let ?pc = "permissionsOn\<lparr>transform := Some throwingTransform\<rparr>"
  let ?u = "userWithRole (Atom (Str ''x''))"
  have t: "transform ?pc = Some throwingTransform"
    by (simp add: permissionsOn_def)
  have thrown: "throwingTransform (getField ?u (roleField ?pc)) ?u = Inl (Error ''transform failed'')"
    by (simp add: throwingTransform_def)
  have raw: "getField ?u (roleField ?pc) = Atom (Str ''x'')"
    by (simp add: getField_def roleField_def permissionsOn_def userWithRole_def)
  have m: "mapping ?pc = None" and en: "enabled ?pc"
    by (simp_all add: permissionsOn_def)
  have p: "permissionsOf (withPermissions ?pc) = Some ?pc"
    by (simp add: permissionsOf_def withPermissions_def)
  note fallback = transform_fault_falls_back [OF t thrown, of "''x''" "withPermissions ?pc"]
  from fallback raw m have pipeline: "resolveRoles ?pc ?u = [Str ''x'']"
    by blast
  from fallback raw m en p have composable: "userRoles (withPermissions ?pc) (Some ?u) = [Str ''x'']"
    by blast
  have thrown': "throwingTransform (Atom (Str ''x'')) ?u = Inl (Error ''transform failed'')"
    by (simp add: throwingTransform_def)
  from t thrown' pipeline composable show ?thesis
    by blast
qed

text \<open>
  With a permissions object configured, \<^verbatim>\<open>userRoles\<close> is empty when \<^verbatim>\<open>enabled\<close> is
  false; otherwise it is the (optionally mapped) normalisation of the value after the
  transform: an array as it is, \<^verbatim>\<open>null\<close> or \<^verbatim>\<open>undefined\<close> as the empty list, any other
  value as a one-element list. Without a mapping an array is returned unchanged, so order
  and repeated roles are kept. The accessor \<^verbatim>\<open>userRole\<close> gives the first element when
  that element is truthy.
\<close>

lemma userRoles_normalization:
  assumes "permissionsOf config = Some pc"
    and "v = applyTransform (transform pc) (getField u (roleField pc)) u"
  shows "(\<not> enabled pc \<longrightarrow> userRoles config (Some u) = [])
     \<and> (enabled pc \<longrightarrow>
          userRoles config (Some u) =
            applyMapping (mapping pc)
              (case v of Arr xs \<Rightarrow> xs | Atom Null \<Rightarrow> [] | Atom Undefined \<Rightarrow> []
               | Atom a \<Rightarrow> [a]))
     \<and> (enabled pc \<and> mapping pc = None \<longrightarrow>
          (\<forall>xs. v = Arr xs \<longrightarrow> userRoles config (Some u) = xs))
     \<and> (\<forall>r rs. userRoles config (Some u) = r # rs \<and> truthy r \<longrightarrow>
            userRole config (Some u) = r)
     \<and> (userRoles config (Some u) = [] \<longrightarrow> userRole config (Some u) = Null)"
proof -
  have norm: "normalizeRoles v = (case v of Arr xs \<Rightarrow> xs | Atom Null \<Rightarrow> []
      | Atom Undefined \<Rightarrow> [] | Atom a \<Rightarrow> [a])"
    by (cases v rule: normalizeRoles.cases) simp_all
  have off: "userRoles config (Some u) = []" if "\<not> enabled pc"
    using that assms(1) by (simp add: userRoles_def)
  have on: "userRoles config (Some u) = applyMapping (mapping pc) (normalizeRoles v)" if "enabled pc"
    using that assms by (simp add: userRoles_def resolveRoles_def)
  have asis: "userRoles config (Some u) = xs" if "enabled pc" and "mapping pc = None" and "v = Arr xs" for xs
    using that on by (simp add: applyMapping_def)
  have first: "userRole config (Some u) = r"
    if "userRoles config (Some u) = r # rs" and "truthy r" for r rs
    using that by (simp add: userRole_def)
  have none: "userRole config (Some u) = Null" if "userRoles config (Some u) = []"
    using that by (simp add: userRole_def)
  from off on asis first none norm show ?thesis by simp
qed

text \<open>
  C6. The specification says that the single-role accessor returns the first element of
  the role list. For a user whose role field is the empty string (permissions enabled, no
  transform, no mapping) the role list is the one-element list of the empty string, which
  \<^verbatim>\<open>userRoles\<close> keeps as a role, and \<^verbatim>\<open>userRole\<close> (\<^verbatim>\<open>userRoles.value[0] || null\<close>) gives
  \<^verbatim>\<open>null\<close>, not that element.
\<close>

theorem userRole_of_empty_string_role:
  "userRoles (withPermissions permissionsOn) (Some (userWithRole (Atom (Str ''''))))
     = [Str '''']
   \<and> userRole (withPermissions permissionsOn) (Some (userWithRole (Atom (Str ''''))))
     = Null"
  by (simp add: userRole_def role_defs example_defs)

text \<open>
  With a mapping configured, each role is looked up by its property key: an own entry
  with a non-empty value replaces the role; an own entry with the empty string leaves it;
  and with no own entry the role is left as it is unless its key names a member of
  \<^verbatim>\<open>Object.prototype\<close>, which then replaces it.
\<close>

lemma applyMapping_elementwise:
  "applyMapping (Some m) rs =
     map (\<lambda>role. case m (toKey role) of
                   Some v \<Rightarrow> if v = [] then role else Str v
                 | None \<Rightarrow> if toKey role \<in> set objectPrototypeKeys
                           then Builtin (toKey role) else role) rs"
  by (simp add: applyMapping_def mappingLookup_def inherited_def split: option.splits)

text \<open>
  C7. The specification says that a role with no mapping entry is left unchanged. The
  mapping of the documentation has no entry for \<open>constructor\<close>, and a user whose role is
  that string gets, from \<^verbatim>\<open>mapping[role] || role\<close>, the inherited
  \<^verbatim>\<open>Object.prototype.constructor\<close> as role instead of the string. (A role with an entry
  is replaced by the entry's value, as the specification says.)
\<close>

theorem mapping_reads_inherited_constructor:
  "uuidMapping ''constructor'' = None
   \<and> resolveRoles (permissionsOn\<lparr>mapping := Some uuidMapping\<rparr>)
        (userWithRole (Atom (Str ''constructor''))) = [Builtin ''constructor'']
   \<and> resolveRoles (permissionsOn\<lparr>mapping := Some uuidMapping\<rparr>)
        (userWithRole (Atom (Str ''a1b2c3d4''))) = [Str ''admin'']"
  by (simp add: uuidMapping_def role_defs example_defs)

section \<open>The route middleware: an unauthenticated session\<close>

lemma authPaths_withPermissions:
  "authPaths (withPermissions pc) = (''/auth/login'', ''/auth/register'', ''/'')"
  by (simp add: authPaths_def withPermissions_def)

lemma directusAuth_check_resolved:
  "directusAuth_check (Inr me) st
     = (Inr (ReturnedMe me), st\<lparr>isAuthenticatedState := True, currentUser := me\<rparr>)"
  by (simp add: directusAuth_check_def checkAuthStatus_def)

lemma directusAuth_check_rejected:
  "directusAuth_check (Inl e) st
     = (Inr ReturnedFalse, st\<lparr>isAuthenticatedState := False, currentUser := None\<rparr>)"
  by (simp add: directusAuth_check_def checkAuthStatus_def)

text \<open>
  The \<^verbatim>\<open>catch\<close> block: when the injected check itself throws on a target that needs
  authentication, the target is remembered and the login path is the redirect.
\<close>

lemma middleware_with_check_throws:
  assumes "resolveAuthMeta (meta_auth to) (enableGlobal config) = (True, authMeta)"
    and "authPaths config = (lp, rp, alp)"
    and "\<not> startsWith (path to) lp" and "\<not> startsWith (path to) rp"
    and "check st = (Inl e, st1)"
  shows "middleware_with check config to from st
     = (Redirect lp, st1\<lparr>redirectCookie := fullPath to\<rparr>)"
  using assms by (simp add: middleware_with_def rememberTarget_def)

text \<open>
  C2, as the code has it. \<^verbatim>\<open>checkAuthStatus\<close> catches a failed re-validation itself, so
  the middleware goes on as for an unauthenticated session: on a route with
  \<^verbatim>\<open>unauthenticatedOnly\<close> the navigation is allowed and the cookie is left alone; on any
  other route that needs authentication the target's full path is remembered and the
  redirect goes to the route's \<^verbatim>\<open>navigateUnauthenticatedTo\<close> when that is a non-empty
  string, else to the login path. Only a check that throws reaches the \<^verbatim>\<open>catch\<close> block,
  which remembers the target and redirects to the login path whatever the route declares.
  (The target does not start with the login or register path: otherwise no re-validation
  takes place.)
\<close>

theorem revalidation_failure_is_unauthenticated:
  assumes "resolveAuthMeta (meta_auth to) (enableGlobal config) = (True, authMeta)"
    and "authPaths config = (lp, rp, alp)"
    and "\<not> startsWith (path to) lp" and "\<not> startsWith (path to) rp"
  shows "middleware (Inl e) config to from st =
     (if optChain authMeta unauthenticatedOnly = Some True
      then (Allow, st\<lparr>isAuthenticatedState := False, currentUser := None\<rparr>)
      else (Redirect (case optChain authMeta navigateUnauthenticatedTo of
                        None \<Rightarrow> lp | Some p \<Rightarrow> if p = [] then lp else p),
            st\<lparr>isAuthenticatedState := False, currentUser := None,
               redirectCookie := fullPath to\<rparr>))
   \<and> (\<forall>check st1 e'. check st = (Inl e', st1) \<longrightarrow>
         middleware_with check config to from st
           = (Redirect lp, st1\<lparr>redirectCookie := fullPath to\<rparr>))"
proof -
  have unauthenticated: "middleware (Inl e) config to from st =
     (if optChain authMeta unauthenticatedOnly = Some True
      then (Allow, st\<lparr>isAuthenticatedState := False, currentUser := None\<rparr>)
      else (Redirect (case optChain authMeta navigateUnauthenticatedTo of
                        None \<Rightarrow> lp | Some p \<Rightarrow> if p = [] then lp else p),
            st\<lparr>isAuthenticatedState := False, currentUser := None,
               redirectCookie := fullPath to\<rparr>))"
    using assms
    by (simp add: middleware_def middleware_with_def directusAuth_check_rejected
        handleUnauthenticated_def rememberTarget_def orElse_def split: option.splits)
  have thrown: "middleware_with check config to from st
      = (Redirect lp, st1\<lparr>redirectCookie := fullPath to\<rparr>)"
    if "check st = (Inl e', st1)" for check st1 e'
    using assms that by (rule middleware_with_check_throws)
  from unauthenticated thrown show ?thesis by blast
qed

theorem revalidation_failure_is_unauthenticated_witness:
  "middleware (Inl (Error ''401'')) (withPermissions permissionsOff)
      (page ''/dashboard''
         (AuthObject (emptyAuthMeta\<lparr>navigateUnauthenticatedTo := Some ''/welcome''\<rparr>)))
      (page ''/'' AuthUndefined) freshState
     = (Redirect ''/welcome'', freshState\<lparr>redirectCookie := ''/dashboard''\<rparr>)
   \<and> middleware_with (\<lambda>st. (Inl (Error ''offline''), st)) (withPermissions permissionsOff)
      (page ''/dashboard''
         (AuthObject (emptyAuthMeta\<lparr>navigateUnauthenticatedTo := Some ''/welcome''\<rparr>)))
      (page ''/'' AuthUndefined) freshState
     = (Redirect ''/auth/login'', freshState\<lparr>redirectCookie := ''/dashboard''\<rparr>)"
proof -
  let ?m = "emptyAuthMeta\<lparr>navigateUnauthenticatedTo := Some ''/welcome''\<rparr>"
  let ?to = "page ''/dashboard'' (AuthObject ?m)"
  let ?config = "withPermissions permissionsOff"
  have meta: "resolveAuthMeta (meta_auth ?to) (enableGlobal ?config) = (True, Some ?m)"
    by (simp add: page_def)
  have lp: "\<not> startsWith (path ?to) ''/auth/login''"
    and rp: "\<not> startsWith (path ?to) ''/auth/register''"
    by (simp_all add: page_def)
  note failure = revalidation_failure_is_unauthenticated
    [OF meta authPaths_withPermissions lp rp, of "Error ''401''" "page ''/'' AuthUndefined" freshState]
  from failure have "middleware (Inl (Error ''401'')) ?config ?to (page ''/'' AuthUndefined) freshState
     = (if optChain (Some ?m) unauthenticatedOnly = Some True
        then (Allow, freshState\<lparr>isAuthenticatedState := False, currentUser := None\<rparr>)
        else (Redirect (case optChain (Some ?m) navigateUnauthenticatedTo of
                          None \<Rightarrow> ''/auth/login''
                        | Some p \<Rightarrow> if p = [] then ''/auth/login'' else p),
              freshState\<lparr>isAuthenticatedState := False, currentUser := None,
                 redirectCookie := fullPath ?to\<rparr>))"
    by blast
  then have first: "middleware (Inl (Error ''401'')) ?config ?to (page ''/'' AuthUndefined) freshState
     = (Redirect ''/welcome'', freshState\<lparr>redirectCookie := ''/dashboard''\<rparr>)"
    by (simp add: optChain_def emptyAuthMeta_def page_def freshState_def)
  from failure have "middleware_with (\<lambda>st. (Inl (Error ''offline''), st)) ?config ?to
        (page ''/'' AuthUndefined) freshState
     = (Redirect ''/auth/login'', freshState\<lparr>redirectCookie := fullPath ?to\<rparr>)"
    by simp
  then have second: "middleware_with (\<lambda>st. (Inl (Error ''offline''), st)) ?config ?to
        (page ''/'' AuthUndefined) freshState
     = (Redirect ''/auth/login'', freshState\<lparr>redirectCookie := ''/dashboard''\<rparr>)"
    by (simp add: page_def)
  from first second show ?thesis by blast
qed

text \<open>
  The claim as the specification words it fails on a route that declares
  \<^verbatim>\<open>navigateUnauthenticatedTo\<close>: after a failed re-validation the redirect goes there, not
  to the login path.
\<close>

theorem revalidation_failure_counterexample:
  "fst (middleware (Inl (Error ''401'')) (withPermissions permissionsOff)
      (page ''/dashboard''
         (AuthObject (emptyAuthMeta\<lparr>navigateUnauthenticatedTo := Some ''/welcome''\<rparr>)))
      (page ''/'' AuthUndefined) freshState) = Redirect ''/welcome''
   \<and> fst (authPaths (withPermissions permissionsOff)) = ''/auth/login''"
  by (simp add: guard_defs example_defs)




section \<open>The route middleware: an authenticated session\<close>

text \<open>
  Away from the login and register paths the code does what the specification says of a
  route marked \<^verbatim>\<open>unauthenticatedOnly\<close>: an authenticated session is redirected to the
  route's \<^verbatim>\<open>navigateAuthenticatedTo\<close> when that is a non-empty string, else to the
  after-login path; except that when the cookie is non-empty and the previous path starts
  with the login or register path, the redirect goes to the remembered path and the cookie
  is cleared.
\<close>

lemma authenticated_on_unauthenticatedOnly_route:
  assumes "meta_auth to = AuthObject m" and "unauthenticatedOnly m = Some True"
    and "authPaths config = (lp, rp, alp)"
    and "\<not> startsWith (path to) lp" and "\<not> startsWith (path to) rp"
    and "check st = (Inr r, st')" and "isAuthenticatedState st'"
  shows "middleware_with check config to from st =
     (if redirectCookie st' \<noteq> [] \<and> (startsWith (path from) lp \<or> startsWith (path from) rp)
      then (Redirect (redirectCookie st'), st'\<lparr>redirectCookie := []\<rparr>)
      else (Redirect (case navigateAuthenticatedTo m of
                        None \<Rightarrow> alp | Some p \<Rightarrow> if p = [] then alp else p), st'))"
  using assms
  by (simp add: middleware_with_def handleAuthenticated_def optChain_def orElse_def
      split: option.splits)

text \<open>
  C4. The specification says that an authenticated session navigating to a route declared
  \<^verbatim>\<open>unauthenticatedOnly\<close> is redirected. The login page of the documentation and of the
  playground declares \<^verbatim>\<open>unauthenticatedOnly\<close> with \<^verbatim>\<open>navigateAuthenticatedTo\<close>
  \<open>/dashboard\<close>; at the login path the middleware returns at line 86, before it reads
  that declaration, and an authenticated user is let onto the page with the state untouched.
\<close>

theorem login_page_allows_authenticated_user:
  "middleware (Inr (Some (userWithRole (Atom (Str ''admin''))))) (withPermissions permissionsOff)
      (page ''/auth/login''
         (AuthObject (emptyAuthMeta\<lparr>unauthenticatedOnly := Some True,
                                     navigateAuthenticatedTo := Some ''/dashboard''\<rparr>)))
      (page ''/'' AuthUndefined)
      (freshState\<lparr>isAuthenticatedState := True,
                  currentUser := Some (userWithRole (Atom (Str ''admin'')))\<rparr>)
     = (Allow,
        freshState\<lparr>isAuthenticatedState := True,
                    currentUser := Some (userWithRole (Atom (Str ''admin'')))\<rparr>)"
  by (simp add: guard_defs example_defs)

text \<open>
  C1, as the code has it. On a route that declares both \<^verbatim>\<open>roles\<close> and
  \<^verbatim>\<open>excludeRoles\<close>, with permissions enabled and an authenticated user, the two lists are
  checked one after the other: the navigation is allowed exactly when the user's roles meet
  \<^verbatim>\<open>roles\<close> (or that list is empty) and do not meet \<^verbatim>\<open>excludeRoles\<close>; otherwise the
  redirect goes to \<^verbatim>\<open>unauthorizedRedirect\<close>, or to \<^verbatim>\<open>/\<close>. (The route is not marked
  \<^verbatim>\<open>unauthenticatedOnly\<close> and the target starts with neither the login nor the register
  path.)
\<close>

theorem roles_and_excludeRoles_both_checked:
  assumes "meta_auth to = AuthObject m"
    and "unauthenticatedOnly m \<noteq> Some True"
    and "roles m = Some allowed" and "excludeRoles m = Some denied"
    and "permissionsOf config = Some pc" and "enabled pc"
    and "authPaths config = (lp, rp, alp)"
    and "\<not> startsWith (path to) lp" and "\<not> startsWith (path to) rp"
  shows "middleware (Inr (Some u)) config to from st =
     (if (allowed = [] \<or> Str ` set allowed \<inter> set (resolveRoles pc u) \<noteq> {})
         \<and> (denied = [] \<or> Str ` set denied \<inter> set (resolveRoles pc u) = {})
      then Allow
      else Redirect (case unauthorizedRedirect m of
                       None \<Rightarrow> ''/'' | Some p \<Rightarrow> if p = [] then ''/'' else p),
      st\<lparr>isAuthenticatedState := True, currentUser := Some u\<rparr>)"
  using assms
  by (auto simp: middleware_def middleware_with_def directusAuth_check_resolved
      handleAuthenticated_def roleBasedAccess_def roleChecks_def optChain_def orElse_def
      list_ex_iff split: option.splits)

theorem roles_and_excludeRoles_both_checked_witness:
  "middleware (Inr (Some (userWithRole (Arr [Str ''editor'', Str ''banned'']))))
      (withPermissions permissionsOn)
      (page ''/articles''
         (AuthObject (emptyAuthMeta\<lparr>roles := Some [''admin'', ''editor''],
                                     excludeRoles := Some [''banned'']\<rparr>)))
      (page ''/'' AuthUndefined) freshState
     = (Redirect ''/'',
        freshState\<lparr>isAuthenticatedState := True,
                    currentUser := Some (userWithRole (Arr [Str ''editor'', Str ''banned'']))\<rparr>)"
proof -
  let ?u = "userWithRole (Arr [Str ''editor'', Str ''banned''])"
  let ?m = "emptyAuthMeta\<lparr>roles := Some [''admin'', ''editor''], excludeRoles := Some [''banned'']\<rparr>"
  let ?to = "page ''/articles'' (AuthObject ?m)"
  have meta: "meta_auth ?to = AuthObject ?m"
    by (simp add: page_def)
  have only: "unauthenticatedOnly ?m \<noteq> Some True"
    by (simp add: emptyAuthMeta_def)
  have allowed: "roles ?m = Some [''admin'', ''editor'']"
    and denied: "excludeRoles ?m = Some [''banned'']"
    by simp_all
  have p: "permissionsOf (withPermissions permissionsOn) = Some permissionsOn"
    by (simp add: permissionsOf_def withPermissions_def)
  have en: "enabled permissionsOn"
    by (simp add: permissionsOn_def)
  have lp: "\<not> startsWith (path ?to) ''/auth/login''"
    and rp: "\<not> startsWith (path ?to) ''/auth/register''"
    by (simp_all add: page_def)
  have rs: "resolveRoles permissionsOn ?u = [Str ''editor'', Str ''banned'']"
    by (simp add: role_defs permissionsOn_def userWithRole_def)
  note both = roles_and_excludeRoles_both_checked
    [OF meta only allowed denied p en authPaths_withPermissions lp rp,
     of "?u" "page ''/'' AuthUndefined" freshState]
  then show ?thesis
    by (simp add: rs emptyAuthMeta_def)
qed

text \<open>
  The claim as the specification words it fails on its own example: the route lists
  \<open>admin\<close> in both \<^verbatim>\<open>roles\<close> and \<^verbatim>\<open>excludeRoles\<close>, the user's roles contain \<open>admin\<close>,
  and the outcome is the redirect for an excluded role.
\<close>

theorem allow_list_not_exclusive_counterexample:
  "Str ''admin'' \<in> set (userRoles (withPermissions permissionsOn)
                          (Some (userWithRole (Atom (Str ''admin'')))))
   \<and> fst (middleware (Inr (Some (userWithRole (Atom (Str ''admin'')))))
        (withPermissions permissionsOn)
        (page ''/admin''
           (AuthObject (emptyAuthMeta\<lparr>roles := Some [''admin''],
                                       excludeRoles := Some [''admin'']\<rparr>)))
        (page ''/'' AuthUndefined) freshState) = Redirect ''/''"
  by (simp add: guard_defs role_defs example_defs)

text \<open>
  C8. On a route that declares \<^verbatim>\<open>roles\<close> or \<^verbatim>\<open>excludeRoles\<close> (and is not marked
  \<^verbatim>\<open>unauthenticatedOnly\<close>), when the check returns with an authenticated session and
  either permissions are not enabled or no current user is stored, the role checks are not
  run: the navigation is allowed, and the state is the one the check left (the untouched
  one when the target starts with the login or register path). The \<^verbatim>\<open>catch\<close> block is not
  entered.
\<close>

theorem role_checks_skipped:
  assumes "meta_auth to = AuthObject m"
    and "unauthenticatedOnly m \<noteq> Some True"
    and "roles m \<noteq> None \<or> excludeRoles m \<noteq> None"
    and "authPaths config = (lp, rp, alp)"
    and "check st = (Inr r, st')" and "isAuthenticatedState st'"
    and "(case permissionsOf config of None \<Rightarrow> True | Some pc \<Rightarrow> \<not> enabled pc)
         \<or> currentUser st' = None"
  shows "middleware_with check config to from st =
     (Allow, if startsWith (path to) lp \<or> startsWith (path to) rp then st else st')"
  using assms
  by (auto simp: middleware_with_def handleAuthenticated_def optChain_def roleBasedAccess_def
      split: option.splits)

theorem role_checks_skipped_witness:
  "middleware (Inr (Some (userWithRole (Atom (Str ''viewer''))))) (withPermissions permissionsOff)
      (page ''/admin'' (AuthObject (emptyAuthMeta\<lparr>roles := Some [''admin'']\<rparr>)))
      (page ''/'' AuthUndefined) freshState
     = (Allow, freshState\<lparr>isAuthenticatedState := True,
                          currentUser := Some (userWithRole (Atom (Str ''viewer'')))\<rparr>)
   \<and> middleware (Inr None) (withPermissions permissionsOn)
      (page ''/admin'' (AuthObject (emptyAuthMeta\<lparr>roles := Some [''admin'']\<rparr>)))
      (page ''/'' AuthUndefined) freshState
     = (Allow, freshState\<lparr>isAuthenticatedState := True\<rparr>)"
proof -
  let ?u = "userWithRole (Atom (Str ''viewer''))"
  let ?m = "emptyAuthMeta\<lparr>roles := Some [''admin'']\<rparr>"
  let ?to = "page ''/admin'' (AuthObject ?m)"
  have meta: "meta_auth ?to = AuthObject ?m"
    by (simp add: page_def)
  have only: "unauthenticatedOnly ?m \<noteq> Some True"
    by (simp add: emptyAuthMeta_def)
  have declared: "roles ?m \<noteq> None \<or> excludeRoles ?m \<noteq> None"
    by simp
  have resolved: "directusAuth_check (Inr (Some ?u)) freshState
      = (Inr (ReturnedMe (Some ?u)),
         freshState\<lparr>isAuthenticatedState := True, currentUser := Some ?u\<rparr>)"
    by (rule directusAuth_check_resolved)
  have authed: "isAuthenticatedState (freshState\<lparr>isAuthenticatedState := True, currentUser := Some ?u\<rparr>)"
    by simp
  have off: "(case permissionsOf (withPermissions permissionsOff) of
                None \<Rightarrow> True | Some pc \<Rightarrow> \<not> enabled pc)
             \<or> currentUser (freshState\<lparr>isAuthenticatedState := True, currentUser := Some ?u\<rparr>) = None"
    by (simp add: permissionsOf_def withPermissions_def permissionsOff_def)
  note disabled = role_checks_skipped
    [where check = "directusAuth_check (Inr (Some ?u))" and st = freshState
       and ?from = "page ''/'' AuthUndefined",
     OF meta only declared authPaths_withPermissions resolved authed off]
  then have first: "middleware (Inr (Some ?u)) (withPermissions permissionsOff) ?to
      (page ''/'' AuthUndefined) freshState
     = (Allow, freshState\<lparr>isAuthenticatedState := True, currentUser := Some ?u\<rparr>)"
    by (simp add: middleware_def page_def)
  have null: "directusAuth_check (Inr None) freshState
      = (Inr (ReturnedMe None), freshState\<lparr>isAuthenticatedState := True, currentUser := None\<rparr>)"
    by (rule directusAuth_check_resolved)
  have authed': "isAuthenticatedState (freshState\<lparr>isAuthenticatedState := True, currentUser := None\<rparr>)"
    by simp
  have nouser: "(case permissionsOf (withPermissions permissionsOn) of
                None \<Rightarrow> True | Some pc \<Rightarrow> \<not> enabled pc)
             \<or> currentUser (freshState\<lparr>isAuthenticatedState := True, currentUser := None\<rparr>) = None"
    by simp
  note no_user = role_checks_skipped
    [where check = "directusAuth_check (Inr None)" and st = freshState
       and ?from = "page ''/'' AuthUndefined",
     OF meta only declared authPaths_withPermissions null authed' nouser]
  then have second: "middleware (Inr None) (withPermissions permissionsOn) ?to
      (page ''/'' AuthUndefined) freshState
     = (Allow, freshState\<lparr>isAuthenticatedState := True\<rparr>)"
    by (simp add: middleware_def page_def freshState_def)
  from first second show ?thesis by blast
qed

section \<open>Login and the redirect cookie\<close>

text \<open>
  C10. A login call whose \<^verbatim>\<open>client.login\<close> request resolves navigates to the remembered
  path when the cookie is non-empty, and otherwise to the configured after-login path
  (\<^verbatim>\<open>/\<close> when none is configured or it is empty), and leaves the cookie empty. Neither
  the previous page nor the middleware takes part: \<^verbatim>\<open>login\<close> has no such argument.
\<close>

theorem login_consumes_redirect_memory:
  "navigatedTo (login config (Inr ok) meResponse st) =
      Some (if redirectCookie st \<noteq> [] then redirectCookie st
            else case (case config of None \<Rightarrow> None | Some d \<Rightarrow> auth d) of
                   None \<Rightarrow> ''/''
                 | Some a \<Rightarrow> if afterLoginPath a = [] then ''/'' else afterLoginPath a)
   \<and> redirectCookie (nuxt (login config (Inr ok) meResponse st)) = []"
  by (cases meResponse)
     (simp_all add: login_def checkAuthStatus_def loginAfterLoginPath_def orElse_def Let_def
        split: option.splits)

end
